theory Spec2Isabelle
  imports Complex_Main "HOL-Library.Word" "HOL-Library.Sublist" "HOL-Library.Log_Nat"
begin

section \<open>SenseBridge: the state transitions of \<open>App.tsx\<close>\<close>

subsection \<open>Safety banding\<close>

text \<open>
  \<^verbatim>\<open>
  const getSafetyColor = (score: number) => {
    if (score >= 80) return "text-emerald-400";
    if (score >= 50) return "text-yellow-400";
    return "text-red-400";
  };
  \<close>
  A finite JavaScript number is a real number and \<open>>=\<close> compares the exact values, so
  the score is a \<open>real\<close>; \<open>NaN\<close>, which fails both comparisons, is left out.
  \<open>getSafetyBg\<close> has the same two tests. Emerald is the favorable band, yellow the
  cautionary one and red the unfavorable one.
\<close>

definition getSafetyColor :: "real \<Rightarrow> string" where
  "getSafetyColor score =
     (if score \<ge> 80 then ''text-emerald-400''
      else if score \<ge> 50 then ''text-yellow-400''
      else ''text-red-400'')"

definition getSafetyBg :: "real \<Rightarrow> string" where
  "getSafetyBg score =
     (if score \<ge> 80 then ''bg-emerald-500/10 border-emerald-500/20''
      else if score \<ge> 50 then ''bg-yellow-500/10 border-yellow-500/20''
      else ''bg-red-500/10 border-red-500/20'')"

subsection \<open>Numbers\<close>

text \<open>
  A JavaScript number is a binary64 double. A finite double is the real number it
  denotes; a numeric literal is the double nearest to it, and \<open>+\<close>, \<open>-\<close> and \<open>*\<close> return
  the double nearest to the exact result, a tie going to the even significand. \<open>rnd\<close>
  is that rounding: the unit in the last place of \<open>x\<close> is \<open>2\<close> to the power
  \<open>ulp_exponent x\<close>, which is 52 below the binary exponent of \<open>x\<close> and never below -1074
  (the subnormal numbers). Magnitudes so large that they round to \<open>Infinity\<close> (beyond
  about \<open>1.8e308\<close>) are not treated: no number of the motion simulator exceeds 16.
\<close>

definition ilog2 :: "real \<Rightarrow> int" where
  "ilog2 x = (if 1 \<le> x then bitlen \<lfloor>x\<rfloor> - 1 else - bitlen (\<lceil>1 / x\<rceil> - 1))"

definition rte :: "real \<Rightarrow> int" where
  "rte x =
     (let f = \<lfloor>x\<rfloor> in
      if x - of_int f < 1 / 2 then f
      else if 1 / 2 < x - of_int f then f + 1
      else if even f then f else f + 1)"

definition ulp_exponent :: "real \<Rightarrow> int" where
  "ulp_exponent x = max (ilog2 \<bar>x\<bar> - 52) (- 1074)"

definition rnd :: "real \<Rightarrow> real" where
  "rnd x =
     (if x = 0 then 0
      else of_int (rte (x / 2 powi ulp_exponent x)) * 2 powi ulp_exponent x)"

definition dadd :: "real \<Rightarrow> real \<Rightarrow> real" where
  "dadd a b = rnd (a + b)"

definition dsub :: "real \<Rightarrow> real \<Rightarrow> real" where
  "dsub a b = rnd (a - b)"

definition dmul :: "real \<Rightarrow> real \<Rightarrow> real" where
  "dmul a b = rnd (a * b)"

text \<open>What \<open>Math.random()\<close> can return: a double that is at least 0 and less than 1.\<close>

definition is_random :: "real \<Rightarrow> bool" where
  "is_random r \<longleftrightarrow> rnd r = r \<and> 0 \<le> r \<and> r < 1"

subsection \<open>Data\<close>

text \<open>
  Modelled from the spec: the declarations of \<open>./types\<close> (\<open>MotionData\<close>,
  \<open>ExplorationAnalysisResult\<close>, \<open>ExplorationLogEntry\<close>, \<open>QueryResult\<close>) are not part of
  the source. The fields below are the ones the specification's data model lists, each of
  them read somewhere in \<open>App.tsx\<close>. A vector is the triple of its \<open>x\<close>, \<open>y\<close> and \<open>z\<close>
  components. The entry's \<open>id\<close> is called \<open>id'\<close> here, and its timestamp is kept as the
  instant, in milliseconds of the wall clock, whose ISO rendering the source stores.
\<close>

type_synonym vec3 = "real \<times> real \<times> real"

record MotionData =
  accel :: vec3
  gyro :: vec3

record ExplorationAnalysisResult =
  location_estimation :: string
  environment_type :: string
  terrain_summary :: string
  confidence :: real
  safety_score :: real
  bio_clues :: "string list"
  acoustic_clues :: "string list"
  structural_notes :: string
  solo_traveler_advice :: string
  navigation_hint :: string
  recommended_actions :: "string list"

record ExplorationLogEntry = ExplorationAnalysisResult +
  id' :: string
  timestamp :: int
  imageFrameUrl :: "string option"
  audioTranscript :: "string option"

record QueryResult =
  answer :: string
  reasoning :: string

text \<open>
  The question typed by the user is kept as its UTF-16 code units, because \<open>trim()\<close>
  inspects them. The other strings are only stored, tested for emptiness or split at an
  ASCII comma.
\<close>

type_synonym jsstring = "16 word list"

type_synonym js_error = string

definition INITIAL_MOTION :: MotionData where
  "INITIAL_MOTION =
     \<lparr>accel = (rnd 0.02, rnd 9.81, rnd 0.05), gyro = (rnd 0.01, rnd 0.00, rnd 0.01)\<rparr>"

definition ANALYSIS_STEPS :: "string list" where
  "ANALYSIS_STEPS =
     [''Mapping Visual Terrain...'',
      ''Analyzing Acoustic Profile...'',
      ''Integrating Sensor Data...'',
      ''Triangulating Geo-Location...'',
      ''Assessing Traveler Safety...'',
      ''Synthesizing Exploration Insights...'']"

subsection \<open>JavaScript helpers\<close>

text \<open>
  \<open>!v\<close> on a value of type \<open>string | null\<close>: \<open>null\<close> and the empty string are falsy.
\<close>

fun truthy :: "'a list option \<Rightarrow> bool" where
  "truthy None = False"
| "truthy (Some s) = (s \<noteq> [])"

text \<open>
  \<open>s.split(',')[1]\<close>: the text between the first comma and the second one (or the end);
  \<open>undefined\<close>, here \<open>None\<close>, when \<open>s\<close> has no comma.
\<close>

definition split_comma_1 :: "string \<Rightarrow> string option" where
  "split_comma_1 s =
     (case dropWhile (\<lambda>c. c \<noteq> CHR '','') s of
        [] \<Rightarrow> None
      | _ # rest \<Rightarrow> Some (takeWhile (\<lambda>c. c \<noteq> CHR '','') rest))"

text \<open>
  \<open>String.prototype.trim\<close> removes the code units of ECMAScript's WhiteSpace and
  LineTerminator productions from both ends.
\<close>

definition is_ws :: "16 word \<Rightarrow> bool" where
  "is_ws c \<longleftrightarrow>
     c = 0x0009 \<or> c = 0x000A \<or> c = 0x000B \<or> c = 0x000C \<or> c = 0x000D \<or> c = 0x0020
     \<or> c = 0x00A0 \<or> c = 0x1680 \<or> (0x2000 \<le> c \<and> c \<le> 0x200A)
     \<or> c = 0x2028 \<or> c = 0x2029 \<or> c = 0x202F \<or> c = 0x205F \<or> c = 0x3000 \<or> c = 0xFEFF"

definition trim :: "jsstring \<Rightarrow> jsstring" where
  "trim s = rev (dropWhile is_ws (rev (dropWhile is_ws s)))"

subsection \<open>State\<close>

text \<open>The cells of \<open>useState\<close>, in the order of the source.\<close>

record app_state =
  showLanding :: bool
  currentFrame :: "string option"
  isRecording :: bool
  transcribedAudio :: "string option"
  motionData :: MotionData
  isAnalyzing :: bool
  loadingText :: string
  currentAnalysis :: "ExplorationAnalysisResult option"
  explorationLog :: "ExplorationLogEntry list"
  error :: "string option"
  userQuery :: jsstring
  isQuerying :: bool
  queryResult :: "QueryResult option"

text \<open>
  A call of \<open>analyzeEnvironment\<close> that has not settled. The continuation of
  \<open>handleAnalyze\<close> after its \<open>await\<close> reads the variables of the render in which the
  handler was invoked, so the call keeps them: \<open>currentFrame\<close>, \<open>transcribedAudio\<close> and
  \<open>motionData\<close> as they were then, and the local \<open>imageBase64\<close> and \<open>stepIndex\<close>. The
  wall clock at the start of the request is kept with the call, although the source does
  not read it, so that the timestamp of the entry can be compared with it.
\<close>

record analyze_call =
  cl_currentFrame :: "string option"
  cl_transcribedAudio :: "string option"
  cl_motionData :: MotionData
  imageBase64 :: "string option"
  stepIndex :: nat
  started :: int

text \<open>A call \<open>askSenseBridge(userQuery, currentAnalysis)\<close> that has not settled.\<close>

record ask_call =
  question :: jsstring
  analysis_context :: ExplorationAnalysisResult

datatype recorder = NoRecorder | Recording | Inactive

text \<open>
  The rest of what the handlers act on: \<open>mediaRecorderRef\<close>, the clock of the timers
  (\<open>now\<close>, in milliseconds, which only goes forward), the wall clock that \<open>new Date()\<close>
  reads (in milliseconds, which the system or the user can set to any instant), the due
  times of the pending \<open>setTimeout\<close> callbacks of \<open>simulateMotion\<close>, the outstanding
  external calls in the order they were made, the number of outstanding
  \<open>transcribeAudio\<close> calls, and what \<open>console.error\<close> has printed. Both clocks count from
  the moment the page is loaded.
\<close>

record world = app_state +
  mediaRecorder :: recorder
  now :: nat
  wallClock :: int
  motionTimers :: "nat list"
  pendingAnalyses :: "analyze_call list"
  pendingQueries :: "ask_call list"
  pendingTranscriptions :: nat
  console :: "js_error list"

definition init_world :: world where
  "init_world =
     \<lparr>showLanding = True, currentFrame = None, isRecording = False,
      transcribedAudio = None, motionData = INITIAL_MOTION, isAnalyzing = False,
      loadingText = ''Initializing...'', currentAnalysis = None, explorationLog = [],
      error = None, userQuery = [], isQuerying = False, queryResult = None,
      mediaRecorder = NoRecorder, now = 0, wallClock = 0, motionTimers = [],
      pendingAnalyses = [],
      pendingQueries = [], pendingTranscriptions = 0, console = []\<rparr>"

subsection \<open>Handlers\<close>

definition handleLaunch :: "world \<Rightarrow> world" where
  "handleLaunch w = w\<lparr>showLanding := False\<rparr>"

text \<open>
  \<open>reader.onloadend\<close> of \<open>handleImageUpload\<close>; \<open>reader.result\<close> is \<open>null\<close> when the
  file could not be read.
\<close>

definition handleImageUpload_onloadend :: "string option \<Rightarrow> world \<Rightarrow> world" where
  "handleImageUpload_onloadend result w =
     w\<lparr>currentFrame := result, currentAnalysis := None, queryResult := None\<rparr>"

text \<open>
  \<open>startRecording\<close> once \<open>getUserMedia\<close> has settled: with a stream the recorder is
  created and started, otherwise the \<open>catch\<close> branch runs.
\<close>

definition startRecording :: "bool \<Rightarrow> world \<Rightarrow> world" where
  "startRecording granted w =
     (if granted then w\<lparr>isRecording := True, mediaRecorder := Recording\<rparr>
      else w\<lparr>error := Some ''Microphone access denied.''\<rparr>)"

text \<open>
  Stopping the recorder makes \<open>onstop\<close> read the clip and call \<open>transcribeAudio\<close>.
\<close>

definition stopRecording :: "world \<Rightarrow> world" where
  "stopRecording w =
     (if mediaRecorder w = Recording
      then w\<lparr>isRecording := False, mediaRecorder := Inactive,
             pendingTranscriptions := Suc (pendingTranscriptions w)\<rparr>
      else w)"

text \<open>
  \<open>transcribeAudio\<close> settles: its transcript is stored; a rejection is handled nowhere.
\<close>

definition transcribed :: "js_error + string \<Rightarrow> world \<Rightarrow> world" where
  "transcribed outcome w =
     (case outcome of
        Inr t \<Rightarrow> w\<lparr>transcribedAudio := Some t,
                    pendingTranscriptions := pendingTranscriptions w - 1\<rparr>
      | Inl e \<Rightarrow> w\<lparr>pendingTranscriptions := pendingTranscriptions w - 1\<rparr>)"

text \<open>
  \<open>simulateMotion\<close>, given the six results of \<open>Math.random()\<close> in the order of the calls.
  Every literal and every operation is rounded as the doubles are.
\<close>

definition newMotion :: "real \<times> real \<times> real \<times> real \<times> real \<times> real \<Rightarrow> MotionData" where
  "newMotion rs =
     (case rs of (r1, r2, r3, r4, r5, r6) \<Rightarrow>
        \<lparr>accel = (dmul (dsub r1 (rnd 0.5)) (rnd 8),
                  dadd (rnd 9.81) (dmul (dsub r2 (rnd 0.5)) (rnd 5)),
                  dmul (dsub r3 (rnd 0.5)) (rnd 8)),
         gyro = (dmul (dsub r4 (rnd 0.5)) (rnd 2),
                 dmul (dsub r5 (rnd 0.5)) (rnd 2),
                 dmul (dsub r6 (rnd 0.5)) (rnd 2))\<rparr>)"

definition random_draws :: "real \<times> real \<times> real \<times> real \<times> real \<times> real \<Rightarrow> bool" where
  "random_draws rs =
     (case rs of (r1, r2, r3, r4, r5, r6) \<Rightarrow>
        is_random r1 \<and> is_random r2 \<and> is_random r3
        \<and> is_random r4 \<and> is_random r5 \<and> is_random r6)"

definition simulateMotion :: "real \<times> real \<times> real \<times> real \<times> real \<times> real \<Rightarrow> world \<Rightarrow> world" where
  "simulateMotion rs w =
     w\<lparr>motionData := newMotion rs, motionTimers := motionTimers w @ [now w + 3000]\<rparr>"

text \<open>
  \<open>d\<close> milliseconds pass on both clocks. Every \<open>setTimeout\<close> callback of
  \<open>simulateMotion\<close> that is due by then runs; each of them is
  \<open>setMotionData(INITIAL_MOTION)\<close>. No handler keeps the handle of such a timer, and none
  is ever cleared.
\<close>

definition advance :: "nat \<Rightarrow> world \<Rightarrow> world" where
  "advance d w =
     (let t = now w + d in
      w\<lparr>motionData := (if \<exists>u \<in> set (motionTimers w). u \<le> t then INITIAL_MOTION
                        else motionData w),
        now := t,
        wallClock := wallClock w + int d,
        motionTimers := filter (\<lambda>u. t < u) (motionTimers w)\<rparr>)"

text \<open>
  \<open>handleAnalyze\<close> up to its \<open>await\<close>: the validation, the three updates, the first
  caption, and the call.
\<close>

definition handleAnalyze_start :: "world \<Rightarrow> world" where
  "handleAnalyze_start w =
     (if \<not> truthy (currentFrame w) \<and> \<not> truthy (transcribedAudio w)
      then w\<lparr>error := Some ''Please provide at least Visual or Audio input to analyze.''\<rparr>
      else
        w\<lparr>error := None, isAnalyzing := True, queryResult := None,
          loadingText := ANALYSIS_STEPS ! 0,
          pendingAnalyses := pendingAnalyses w @
            [\<lparr>cl_currentFrame = currentFrame w,
              cl_transcribedAudio = transcribedAudio w,
              cl_motionData = motionData w,
              imageBase64 =
                (case currentFrame w of
                   None \<Rightarrow> None
                 | Some f \<Rightarrow> if f = [] then None else split_comma_1 f),
              stepIndex = 0,
              started = wallClock w\<rparr>]\<rparr>)"

text \<open>One tick of the \<open>setInterval\<close> callback of the \<open>i\<close>-th outstanding analysis.\<close>

definition stepInterval :: "nat \<Rightarrow> world \<Rightarrow> world" where
  "stepInterval i w =
     (if i < length (pendingAnalyses w) then
        let p = pendingAnalyses w ! i;
            k = (stepIndex p + 1) mod length ANALYSIS_STEPS
        in w\<lparr>loadingText := ANALYSIS_STEPS ! k,
             pendingAnalyses := (pendingAnalyses w)[i := p\<lparr>stepIndex := k\<rparr>]\<rparr>
      else w)"

text \<open>
  \<open>handleAnalyze\<close> from its \<open>await\<close> on, for the \<open>i\<close>-th outstanding call: \<open>outcome\<close> is
  the rejection or the result of \<open>analyzeEnvironment\<close>. With a result,
  \<open>setCurrentAnalysis\<close> runs first; then the entry is built, and \<open>uuid\<close> is what
  \<open>crypto.randomUUID()\<close> does there: it returns an identifier, or it throws (the function
  is missing outside a secure context), and then the \<open>catch\<close> block runs as for a
  rejection. \<open>new Date()\<close> reads the wall clock. The \<open>finally\<close> block clears the
  interval, which goes with the call, and resets \<open>isAnalyzing\<close>.
\<close>

definition handleAnalyze_settle ::
    "nat \<Rightarrow> js_error + ExplorationAnalysisResult \<Rightarrow> js_error + string \<Rightarrow> world \<Rightarrow> world" where
  "handleAnalyze_settle i outcome uuid w =
     (if i < length (pendingAnalyses w) then
        let p = pendingAnalyses w ! i;
            w1 = w\<lparr>pendingAnalyses :=
                     take i (pendingAnalyses w) @ drop (Suc i) (pendingAnalyses w)\<rparr>;
            w2 = (case outcome of
                    Inr result \<Rightarrow>
                      (case uuid of
                         Inr u \<Rightarrow>
                           w1\<lparr>currentAnalysis := Some result,
                              explorationLog :=
                                ExplorationAnalysisResult.extend result
                                  \<lparr>id' = u, timestamp = wallClock w,
                                   imageFrameUrl = cl_currentFrame p,
                                   audioTranscript = cl_transcribedAudio p\<rparr>
                                # explorationLog w\<rparr>
                       | Inl err \<Rightarrow>
                           w1\<lparr>currentAnalysis := Some result,
                              error := Some ''Failed to analyze environment. Please try again.'',
                              console := console w @ [err]\<rparr>)
                  | Inl err \<Rightarrow>
                      w1\<lparr>error := Some ''Failed to analyze environment. Please try again.'',
                         console := console w @ [err]\<rparr>)
        in w2\<lparr>isAnalyzing := False\<rparr>
      else w)"

text \<open>\<open>handleAsk\<close> up to its \<open>await\<close>.\<close>

definition handleAsk_start :: "world \<Rightarrow> world" where
  "handleAsk_start w =
     (case currentAnalysis w of
        None \<Rightarrow> w
      | Some analysis \<Rightarrow>
          if trim (userQuery w) = [] then w
          else w\<lparr>isQuerying := True,
                 pendingQueries := pendingQueries w @
                   [\<lparr>question = userQuery w, analysis_context = analysis\<rparr>]\<rparr>)"

text \<open>\<open>handleAsk\<close> from its \<open>await\<close> on, for the \<open>i\<close>-th outstanding call.\<close>

definition handleAsk_settle :: "nat \<Rightarrow> js_error + QueryResult \<Rightarrow> world \<Rightarrow> world" where
  "handleAsk_settle i outcome w =
     (if i < length (pendingQueries w) then
        let w1 = w\<lparr>pendingQueries :=
                     take i (pendingQueries w) @ drop (Suc i) (pendingQueries w)\<rparr>;
            w2 = (case outcome of
                    Inr result \<Rightarrow> w1\<lparr>queryResult := Some result\<rparr>
                  | Inl e \<Rightarrow> w1\<lparr>console := console w @ [e]\<rparr>)
        in w2\<lparr>isQuerying := False\<rparr>
      else w)"

subsection \<open>Events\<close>

text \<open>
  What can happen to the application: the user acts on a control that is rendered and not
  disabled, time passes, the wall clock is set, an external call or a browser request
  settles.
\<close>

datatype event =
    Launch
  | HeaderClick
  | ImageLoaded "string option"
  | MicrophoneSettled bool
  | StopClick
  | TranscribeSettled "js_error + string"
  | SimulateClick "real \<times> real \<times> real \<times> real \<times> real \<times> real"
  | Advance nat
  | ClockAdjusted int
  | AnalyzeClick
  | StepTick nat
  | AnalyzeSettled nat "js_error + ExplorationAnalysisResult" "js_error + string"
  | QueryInput jsstring
  | AskClick
  | AskEnter
  | AskSettled nat "js_error + QueryResult"
  | AskAnother

text \<open>
  The conditions under which the JSX offers each event. The landing page replaces the
  whole interface while \<open>showLanding\<close> holds. The analyze button is disabled while
  \<open>isAnalyzing\<close>. The question field and the ask button are rendered only while there is
  no \<open>queryResult\<close>; the field is disabled without a \<open>currentAnalysis\<close>, and the button
  also while \<open>isQuerying\<close> or when the trimmed question is empty. The record button calls
  \<open>stopRecording\<close> while \<open>isRecording\<close>. A settling call needs the call to be outstanding.
\<close>

fun enabled :: "event \<Rightarrow> world \<Rightarrow> bool" where
  "enabled Launch w = showLanding w"
| "enabled HeaderClick w = (\<not> showLanding w)"
| "enabled (ImageLoaded result) w = True"
| "enabled (MicrophoneSettled granted) w = True"
| "enabled StopClick w = (\<not> showLanding w \<and> isRecording w)"
| "enabled (TranscribeSettled outcome) w = (0 < pendingTranscriptions w)"
| "enabled (SimulateClick rs) w = (\<not> showLanding w)"
| "enabled (Advance d) w = True"
| "enabled (ClockAdjusted t) w = True"
| "enabled AnalyzeClick w = (\<not> showLanding w \<and> \<not> isAnalyzing w)"
| "enabled (StepTick i) w = (i < length (pendingAnalyses w))"
| "enabled (AnalyzeSettled i outcome uuid) w = (i < length (pendingAnalyses w))"
| "enabled (QueryInput q) w =
     (\<not> showLanding w \<and> queryResult w = None \<and> currentAnalysis w \<noteq> None)"
| "enabled AskClick w =
     (\<not> showLanding w \<and> queryResult w = None
      \<and> \<not> (currentAnalysis w = None \<or> isQuerying w \<or> trim (userQuery w) = []))"
| "enabled AskEnter w =
     (\<not> showLanding w \<and> queryResult w = None \<and> currentAnalysis w \<noteq> None)"
| "enabled (AskSettled i outcome) w = (i < length (pendingQueries w))"
| "enabled AskAnother w = (\<not> showLanding w \<and> queryResult w \<noteq> None)"

fun step :: "event \<Rightarrow> world \<Rightarrow> world" where
  "step Launch w = handleLaunch w"
| "step HeaderClick w = w\<lparr>showLanding := True\<rparr>"
| "step (ImageLoaded result) w = handleImageUpload_onloadend result w"
| "step (MicrophoneSettled granted) w = startRecording granted w"
| "step StopClick w = stopRecording w"
| "step (TranscribeSettled outcome) w = transcribed outcome w"
| "step (SimulateClick rs) w = simulateMotion rs w"
| "step (Advance d) w = advance d w"
| "step (ClockAdjusted t) w = w\<lparr>wallClock := t\<rparr>"
| "step AnalyzeClick w = handleAnalyze_start w"
| "step (StepTick i) w = stepInterval i w"
| "step (AnalyzeSettled i outcome uuid) w = handleAnalyze_settle i outcome uuid w"
| "step (QueryInput q) w = w\<lparr>userQuery := q\<rparr>"
| "step AskClick w = handleAsk_start w"
| "step AskEnter w = handleAsk_start w"
| "step (AskSettled i outcome) w = handleAsk_settle i outcome w"
| "step AskAnother w = w\<lparr>queryResult := None\<rparr>"

text \<open>Any sequence of events, offered or not.\<close>

fun exec :: "event list \<Rightarrow> world \<Rightarrow> world" where
  "exec [] w = w"
| "exec (e # es) w = exec es (step e w)"

text \<open>A session: each event must be offered in the state it happens in.\<close>

fun run :: "event list \<Rightarrow> world \<Rightarrow> world option" where
  "run [] w = Some w"
| "run (e # es) w = (if enabled e w then run es (step e w) else None)"

subsection \<open>The handlers from call to return\<close>

text \<open>
  \<open>handleAnalyze\<close> as a whole, when \<open>analyzeEnvironment\<close> settles with \<open>outcome\<close> after
  \<open>d\<close> milliseconds and nothing else happens in between. The call is the last one
  made, so it is the one at index \<open>length (pendingAnalyses w)\<close>.
\<close>

definition handleAnalyze ::
    "nat \<Rightarrow> js_error + ExplorationAnalysisResult \<Rightarrow> js_error + string \<Rightarrow> world \<Rightarrow> world"
    where
  "handleAnalyze d outcome uuid w =
     (if \<not> truthy (currentFrame w) \<and> \<not> truthy (transcribedAudio w)
      then handleAnalyze_start w
      else handleAnalyze_settle (length (pendingAnalyses w)) outcome uuid
             (advance d (handleAnalyze_start w)))"

text \<open>\<open>handleAsk\<close> as a whole, in the same way.\<close>

definition handleAsk :: "nat \<Rightarrow> js_error + QueryResult \<Rightarrow> world \<Rightarrow> world" where
  "handleAsk d outcome w =
     (if currentAnalysis w = None \<or> trim (userQuery w) = []
      then handleAsk_start w
      else handleAsk_settle (length (pendingQueries w)) outcome
             (advance d (handleAsk_start w)))"

subsection \<open>Invariants of a session\<close>

text \<open>At most one analysis is outstanding, and \<open>isAnalyzing\<close> holds while one is.\<close>

definition one_analysis :: "world \<Rightarrow> bool" where
  "one_analysis w \<longleftrightarrow>
     length (pendingAnalyses w) \<le> 1 \<and> (pendingAnalyses w \<noteq> [] \<longrightarrow> isAnalyzing w)"

text \<open>The same for the queries.\<close>

definition one_query :: "world \<Rightarrow> bool" where
  "one_query w \<longleftrightarrow>
     length (pendingQueries w) \<le> 1 \<and> (pendingQueries w \<noteq> [] \<longrightarrow> isQuerying w)"

subsection \<open>What a session logs\<close>

text \<open>The settling of a call of \<open>analyzeEnvironment\<close>, and the setting of the wall clock.\<close>

fun settles_analysis :: "event \<Rightarrow> bool" where
  "settles_analysis (AnalyzeSettled i outcome uuid) = True"
| "settles_analysis e = False"

fun adjusts_clock :: "event \<Rightarrow> bool" where
  "adjusts_clock (ClockAdjusted t) = True"
| "adjusts_clock e = False"



subsection \<open>Example values\<close>

definition example_frame :: string where
  "example_frame = ''data:image/png;base64,AAAA''"

definition other_frame :: string where
  "other_frame = ''data:image/png;base64,BBBB''"

definition example_analysis :: ExplorationAnalysisResult where
  "example_analysis =
     \<lparr>location_estimation = ''Coastal trail'', environment_type = ''Forest'',
      terrain_summary = ''Uneven ground'', confidence = 0.9, safety_score = 42,
      bio_clues = [''moss''], acoustic_clues = [], structural_notes = ''None'',
      solo_traveler_advice = ''Stay on the path'', navigation_hint = ''Head north'',
      recommended_actions = [''Proceed slowly'']\<rparr>"

definition example_answer :: QueryResult where
  "example_answer = \<lparr>answer = ''Yes'', reasoning = ''The ground is dry''\<rparr>"

text \<open>The question \<open>hi\<close>.\<close>

definition example_question :: jsstring where
  "example_question = [0x68, 0x69]"

text \<open>
  A session: leave the landing page, load an image, analyze it with success, type a
  question.
\<close>

definition session_until_question :: "event list" where
  "session_until_question =
     [Launch, ImageLoaded (Some example_frame), AnalyzeClick, Advance 700,
      AnalyzeSettled 0 (Inr example_analysis) (Inr ''id-1''), QueryInput example_question]"


definition questioned_world :: world where
  "questioned_world = exec session_until_question init_world"


section \<open>Theorems\<close>

subsection \<open>Auxiliary facts\<close>

lemmas handler_defs =
  handleLaunch_def handleImageUpload_onloadend_def startRecording_def stopRecording_def
  transcribed_def simulateMotion_def advance_def handleAnalyze_start_def stepInterval_def
  handleAnalyze_settle_def handleAsk_start_def handleAsk_settle_def

lemma truthy_null: "\<not> truthy None"
  by simp

lemma trim_empty_iff: "trim s = [] \<longleftrightarrow> (\<forall>c \<in> set s. is_ws c)"
proof
  assume "trim s = []"
  then have "\<forall>c \<in> set (dropWhile is_ws s). is_ws c"
    by (simp add: trim_def dropWhile_eq_Nil_conv)
  then have "dropWhile is_ws s = []"
    using hd_dropWhile [of is_ws s] by (cases "dropWhile is_ws s") auto
  then show "\<forall>c \<in> set s. is_ws c"
    by (simp add: dropWhile_eq_Nil_conv)
next
  assume "\<forall>c \<in> set s. is_ws c"
  then have empty: "dropWhile is_ws s = []"
    by (simp add: dropWhile_eq_Nil_conv)
  show "trim s = []"
    unfolding trim_def empty by simp
qed

lemma trim_example_question: "trim example_question = example_question"
  by (simp add: trim_def example_question_def is_ws_def)

lemma example_question_not_empty: "example_question \<noteq> []"
  by (simp add: example_question_def)

lemma questioned_world_eq:
  "questioned_world =
     init_world\<lparr>showLanding := False, currentFrame := Some example_frame,
       loadingText := ''Mapping Visual Terrain...'',
       currentAnalysis := Some example_analysis,
       explorationLog :=
         [ExplorationAnalysisResult.extend example_analysis
            \<lparr>id' = ''id-1'', timestamp = 700, imageFrameUrl = Some example_frame,
             audioTranscript = None\<rparr>],
       userQuery := example_question, now := 700, wallClock := 700\<rparr>"
  by (simp add: questioned_world_def session_until_question_def init_world_def handler_defs
      Let_def example_frame_def ANALYSIS_STEPS_def)

lemma questioned_world_session:
  "run session_until_question init_world = Some questioned_world"
  by (simp add: questioned_world_def session_until_question_def init_world_def handler_defs
      Let_def example_frame_def)


lemma run_append:
  "run (es @ fs) w = (case run es w of None \<Rightarrow> None | Some w' \<Rightarrow> run fs w')"
  by (induction es arbitrary: w) simp_all




lemma handleAnalyze_settle_success:
  "i < length (pendingAnalyses w) \<Longrightarrow>
   handleAnalyze_settle i (Inr result) (Inr u) w =
     w\<lparr>pendingAnalyses := take i (pendingAnalyses w) @ drop (Suc i) (pendingAnalyses w),
       currentAnalysis := Some result,
       explorationLog :=
         ExplorationAnalysisResult.extend result
           \<lparr>id' = u, timestamp = wallClock w,
            imageFrameUrl = cl_currentFrame (pendingAnalyses w ! i),
            audioTranscript = cl_transcribedAudio (pendingAnalyses w ! i)\<rparr>
         # explorationLog w,
       isAnalyzing := False\<rparr>"
  by (simp add: handleAnalyze_settle_def Let_def)

text \<open>
  When \<open>crypto.randomUUID()\<close> throws, the result has already been stored; the failure
  message is set and nothing is added to the history.
\<close>

lemma handleAnalyze_settle_no_uuid:
  "i < length (pendingAnalyses w) \<Longrightarrow>
   handleAnalyze_settle i (Inr result) (Inl err) w =
     w\<lparr>pendingAnalyses := take i (pendingAnalyses w) @ drop (Suc i) (pendingAnalyses w),
       currentAnalysis := Some result,
       error := Some ''Failed to analyze environment. Please try again.'',
       console := console w @ [err],
       isAnalyzing := False\<rparr>"
  by (simp add: handleAnalyze_settle_def Let_def)

lemma handleAnalyze_settle_failure:
  "i < length (pendingAnalyses w) \<Longrightarrow>
   handleAnalyze_settle i (Inl err) uuid w =
     w\<lparr>pendingAnalyses := take i (pendingAnalyses w) @ drop (Suc i) (pendingAnalyses w),
       error := Some ''Failed to analyze environment. Please try again.'',
       console := console w @ [err],
       isAnalyzing := False\<rparr>"
  by (simp add: handleAnalyze_settle_def Let_def)

lemma handleAsk_settle_failure:
  "i < length (pendingQueries w) \<Longrightarrow>
   handleAsk_settle i (Inl e) w =
     w\<lparr>pendingQueries := take i (pendingQueries w) @ drop (Suc i) (pendingQueries w),
       console := console w @ [e],
       isQuerying := False\<rparr>"
  by (simp add: handleAsk_settle_def Let_def)

subsection \<open>Analysis\<close>

text \<open>
  C1. In every state in which neither an image nor a transcript is present (both cells
  are \<open>null\<close> or the empty string, which is what the handler tests), the analyze action
  makes no call of \<open>analyzeEnvironment\<close>: no call is added to the outstanding ones and
  the resulting state does not depend on what a call would have returned. The error
  message becomes exactly the validation message, and the history is the one before.
\<close>

theorem analyze_without_input:
  "\<not> truthy (currentFrame w) \<and> \<not> truthy (transcribedAudio w) \<Longrightarrow>
     handleAnalyze_start w =
       w\<lparr>error := Some ''Please provide at least Visual or Audio input to analyze.''\<rparr>
     \<and> handleAnalyze d outcome uuid w = handleAnalyze_start w
     \<and> pendingAnalyses (handleAnalyze d outcome uuid w) = pendingAnalyses w
     \<and> error (handleAnalyze d outcome uuid w) =
         Some ''Please provide at least Visual or Audio input to analyze.''
     \<and> explorationLog (handleAnalyze d outcome uuid w) = explorationLog w"
  by (simp add: handleAnalyze_def handleAnalyze_start_def)

theorem analyze_without_input_witness:
  "handleAnalyze 700 (Inr example_analysis) (Inr ''id-1'') init_world =
     init_world\<lparr>error := Some ''Please provide at least Visual or Audio input to analyze.''\<rparr>
   \<and> pendingAnalyses (handleAnalyze 700 (Inr example_analysis) (Inr ''id-1'') init_world) = []
   \<and> explorationLog (handleAnalyze 700 (Inr example_analysis) (Inr ''id-1'') init_world) = []"
  using analyze_without_input [of init_world 700 "Inr example_analysis" "Inr ''id-1''"]
  by (simp add: init_world_def)

lemma step_in_flight:
  assumes "enabled e w" and "\<not> settles_analysis e"
    and "\<exists>k. pendingAnalyses w = [c\<lparr>stepIndex := k\<rparr>]" and "isAnalyzing w"
  shows "(\<exists>k. pendingAnalyses (step e w) = [c\<lparr>stepIndex := k\<rparr>])
       \<and> isAnalyzing (step e w)
       \<and> explorationLog (step e w) = explorationLog w
       \<and> (\<not> adjusts_clock e \<longrightarrow> wallClock w \<le> wallClock (step e w))"
  using assms
  by (cases e) (auto simp: handler_defs Let_def split: sum.splits option.splits)

text \<open>
  While a call of \<open>analyzeEnvironment\<close> is outstanding and does not settle, whatever
  else happens in the session leaves it outstanding, with the variables it captured, and
  leaves the history alone; the wall clock does not go back unless it is set.
\<close>

lemma run_in_flight:
  "run es w = Some w' \<Longrightarrow> \<forall>e \<in> set es. \<not> settles_analysis e \<Longrightarrow>
   \<exists>k. pendingAnalyses w = [c\<lparr>stepIndex := k\<rparr>] \<Longrightarrow> isAnalyzing w \<Longrightarrow>
     (\<exists>k. pendingAnalyses w' = [c\<lparr>stepIndex := k\<rparr>])
     \<and> isAnalyzing w'
     \<and> explorationLog w' = explorationLog w
     \<and> ((\<forall>e \<in> set es. \<not> adjusts_clock e) \<longrightarrow> wallClock w \<le> wallClock w')"
proof (induction es arbitrary: w)
  case Nil
  then show ?case by simp
next
  case (Cons e es)
  from Cons.prems(1) have en: "enabled e w" and rest: "run es (step e w) = Some w'"
    by (simp_all split: if_splits)
  from Cons.prems(2) have ne: "\<not> settles_analysis e"
    and nes: "\<forall>e \<in> set es. \<not> settles_analysis e"
    by simp_all
  note one = step_in_flight [OF en ne Cons.prems(3) Cons.prems(4)]
  from one have a: "\<exists>k. pendingAnalyses (step e w) = [c\<lparr>stepIndex := k\<rparr>]"
    and b: "isAnalyzing (step e w)"
    by blast+
  note later = Cons.IH [OF rest nes a b]
  from one later show ?case
    by auto
qed

text \<open>
  C2, as stated, fails in three ways. The code takes the identifier from
  \<open>crypto.randomUUID()\<close> and compares it with nothing: when the generator returns an
  identifier that an entry already carries, the history holds it twice. When
  \<open>crypto.randomUUID()\<close> throws, the result has become the current analysis but no entry
  is added and the failure message is shown. And the timestamp is the wall clock at the
  moment the call settles: when the clock has been set back since the request started
  (here from 700 to 0), the timestamp is earlier than the start of the request. Each of
  the three lines below is a session that continues the one with an analysed image.
\<close>

theorem analyze_success_not_guaranteed:
  "run [AnalyzeClick, Advance 300, AnalyzeSettled 0 (Inr example_analysis) (Inr ''id-1'')]
     questioned_world
     = Some (exec [AnalyzeClick, Advance 300,
                   AnalyzeSettled 0 (Inr example_analysis) (Inr ''id-1'')] questioned_world)
   \<and> map id' (explorationLog
        (exec [AnalyzeClick, Advance 300,
               AnalyzeSettled 0 (Inr example_analysis) (Inr ''id-1'')] questioned_world))
       = [''id-1'', ''id-1'']
   \<and> run [AnalyzeClick, Advance 300,
           AnalyzeSettled 0 (Inr example_analysis) (Inl ''crypto.randomUUID is not a function'')]
       questioned_world
       = Some (exec [AnalyzeClick, Advance 300,
                     AnalyzeSettled 0 (Inr example_analysis)
                       (Inl ''crypto.randomUUID is not a function'')] questioned_world)
   \<and> currentAnalysis
        (exec [AnalyzeClick, Advance 300,
               AnalyzeSettled 0 (Inr example_analysis)
                 (Inl ''crypto.randomUUID is not a function'')] questioned_world)
       = Some example_analysis
   \<and> explorationLog
        (exec [AnalyzeClick, Advance 300,
               AnalyzeSettled 0 (Inr example_analysis)
                 (Inl ''crypto.randomUUID is not a function'')] questioned_world)
       = explorationLog questioned_world
   \<and> error
        (exec [AnalyzeClick, Advance 300,
               AnalyzeSettled 0 (Inr example_analysis)
                 (Inl ''crypto.randomUUID is not a function'')] questioned_world)
       = Some ''Failed to analyze environment. Please try again.''
   \<and> run [AnalyzeClick, ClockAdjusted 0, AnalyzeSettled 0 (Inr example_analysis) (Inr ''id-2'')]
       questioned_world
       = Some (exec [AnalyzeClick, ClockAdjusted 0,
                     AnalyzeSettled 0 (Inr example_analysis) (Inr ''id-2'')] questioned_world)
   \<and> map started (pendingAnalyses (exec [AnalyzeClick] questioned_world)) = [700]
   \<and> map timestamp (explorationLog
        (exec [AnalyzeClick, ClockAdjusted 0,
               AnalyzeSettled 0 (Inr example_analysis) (Inr ''id-2'')] questioned_world))
       = [0, 700]"
  by (simp add: questioned_world_eq init_world_def example_frame_def handler_defs Let_def
      ExplorationAnalysisResult.defs ExplorationLogEntry.defs)

text \<open>
  C2, amended. In every state with an image or a transcript present and no analysis
  outstanding, the analyze action calls \<open>analyzeEnvironment\<close> with the transcript, the
  motion reading and the image of that state (the part of the frame after its first
  comma). When the call succeeds and \<open>crypto.randomUUID()\<close> returns an identifier, then,
  whatever else has happened in the session since the request started, the returned
  result becomes the current analysis and exactly one entry is put at the head of the
  history. The entry is the result with the identifier returned, so the identifiers
  of the history are distinct exactly when they were before and the new one is carried by
  no older entry; its timestamp is the wall clock read when the call settled, which is
  not earlier than the start of the request provided the clock was not set in between;
  and it holds the image and the transcript of the state in which the action was
  invoked, which are the ones that were sent, not those of the state in which the call
  settled.
\<close>

theorem analyze_success:
  assumes present: "truthy (currentFrame w) \<or> truthy (transcribedAudio w)"
    and idle: "pendingAnalyses w = []"
    and session: "run es (handleAnalyze_start w) = Some w'"
    and unsettled: "\<forall>e \<in> set es. \<not> settles_analysis e"
  shows "pendingAnalyses (handleAnalyze_start w) =
           [\<lparr>cl_currentFrame = currentFrame w,
             cl_transcribedAudio = transcribedAudio w,
             cl_motionData = motionData w,
             imageBase64 =
               (case currentFrame w of
                  None \<Rightarrow> None
                | Some f \<Rightarrow> if f = [] then None else split_comma_1 f),
             stepIndex = 0,
             started = wallClock w\<rparr>]
       \<and> currentAnalysis (handleAnalyze_settle 0 (Inr result) (Inr uuid) w') = Some result
       \<and> explorationLog (handleAnalyze_settle 0 (Inr result) (Inr uuid) w') =
           ExplorationAnalysisResult.extend result
             \<lparr>id' = uuid, timestamp = wallClock w',
              imageFrameUrl = currentFrame w,
              audioTranscript = transcribedAudio w\<rparr>
           # explorationLog w
       \<and> (distinct (map id' (explorationLog (handleAnalyze_settle 0 (Inr result) (Inr uuid) w')))
            \<longleftrightarrow> uuid \<notin> id' ` set (explorationLog w) \<and> distinct (map id' (explorationLog w)))
       \<and> ((\<forall>e \<in> set es. \<not> adjusts_clock e) \<longrightarrow>
            wallClock w
              \<le> timestamp (hd (explorationLog (handleAnalyze_settle 0 (Inr result) (Inr uuid) w'))))
       \<and> pendingAnalyses (handleAnalyze_settle 0 (Inr result) (Inr uuid) w') = []
       \<and> \<not> isAnalyzing (handleAnalyze_settle 0 (Inr result) (Inr uuid) w')"
proof -
  define c where "c =
    \<lparr>cl_currentFrame = currentFrame w, cl_transcribedAudio = transcribedAudio w,
     cl_motionData = motionData w,
     imageBase64 =
       (case currentFrame w of None \<Rightarrow> None
        | Some f \<Rightarrow> if f = [] then None else split_comma_1 f),
     stepIndex = 0, started = wallClock w\<rparr>"
  from present idle have sent: "pendingAnalyses (handleAnalyze_start w) = [c]"
    and busy: "isAnalyzing (handleAnalyze_start w)"
    and log: "explorationLog (handleAnalyze_start w) = explorationLog w"
    and clock: "wallClock (handleAnalyze_start w) = wallClock w"
    by (auto simp: handleAnalyze_start_def c_def)
  from sent have "pendingAnalyses (handleAnalyze_start w) = [c\<lparr>stepIndex := 0\<rparr>]"
    by (simp add: c_def)
  then have "\<exists>k. pendingAnalyses (handleAnalyze_start w) = [c\<lparr>stepIndex := k\<rparr>]" ..
  from run_in_flight [OF session unsettled this busy]
  obtain k where pending: "pendingAnalyses w' = [c\<lparr>stepIndex := k\<rparr>]"
    and log': "explorationLog w' = explorationLog w"
    and clock': "(\<forall>e \<in> set es. \<not> adjusts_clock e) \<longrightarrow> wallClock w \<le> wallClock w'"
    by (auto simp: log clock)
  from pending have settled: "handleAnalyze_settle 0 (Inr result) (Inr uuid) w' =
      w'\<lparr>pendingAnalyses := [], currentAnalysis := Some result,
         explorationLog :=
           ExplorationAnalysisResult.extend result
             \<lparr>id' = uuid, timestamp = wallClock w',
              imageFrameUrl = currentFrame w, audioTranscript = transcribedAudio w\<rparr>
           # explorationLog w,
         isAnalyzing := False\<rparr>"
    by (simp add: handleAnalyze_settle_success log' c_def)
  have ident: "id' (ExplorationAnalysisResult.extend result
      \<lparr>id' = uuid, timestamp = wallClock w', imageFrameUrl = currentFrame w,
       audioTranscript = transcribedAudio w\<rparr>) = uuid"
    and stamp: "timestamp (ExplorationAnalysisResult.extend result
      \<lparr>id' = uuid, timestamp = wallClock w', imageFrameUrl = currentFrame w,
       audioTranscript = transcribedAudio w\<rparr>) = wallClock w'"
    by (simp_all add: ExplorationAnalysisResult.defs ExplorationLogEntry.defs)
  from sent clock' show ?thesis
    unfolding settled by (simp add: c_def ident stamp)
qed

theorem analyze_success_witness:
  "truthy (currentFrame questioned_world)
   \<and> pendingAnalyses questioned_world = []
   \<and> run [ImageLoaded (Some other_frame), Advance 300] (handleAnalyze_start questioned_world)
       = Some (exec [ImageLoaded (Some other_frame), Advance 300]
                 (handleAnalyze_start questioned_world))
   \<and> currentFrame (exec [ImageLoaded (Some other_frame), Advance 300]
                     (handleAnalyze_start questioned_world)) = Some other_frame
   \<and> currentAnalysis (handleAnalyze_settle 0 (Inr example_analysis) (Inr ''id-2'')
        (exec [ImageLoaded (Some other_frame), Advance 300]
           (handleAnalyze_start questioned_world))) = Some example_analysis
   \<and> explorationLog (handleAnalyze_settle 0 (Inr example_analysis) (Inr ''id-2'')
        (exec [ImageLoaded (Some other_frame), Advance 300]
           (handleAnalyze_start questioned_world)))
       = [ExplorationAnalysisResult.extend example_analysis
            \<lparr>id' = ''id-2'', timestamp = 1000, imageFrameUrl = Some example_frame,
             audioTranscript = None\<rparr>,
          ExplorationAnalysisResult.extend example_analysis
            \<lparr>id' = ''id-1'', timestamp = 700, imageFrameUrl = Some example_frame,
             audioTranscript = None\<rparr>]
   \<and> distinct (map id' (explorationLog (handleAnalyze_settle 0 (Inr example_analysis)
        (Inr ''id-2'')
        (exec [ImageLoaded (Some other_frame), Advance 300]
           (handleAnalyze_start questioned_world)))))"
proof -
  let ?es = "[ImageLoaded (Some other_frame), Advance 300]"
  let ?w' = "exec ?es (handleAnalyze_start questioned_world)"
  have present: "truthy (currentFrame questioned_world) \<or> truthy (transcribedAudio questioned_world)"
    and present': "truthy (currentFrame questioned_world)"
    by (simp_all add: questioned_world_eq example_frame_def)
  have idle: "pendingAnalyses questioned_world = []"
    by (simp add: questioned_world_eq init_world_def)
  have session: "run ?es (handleAnalyze_start questioned_world) = Some ?w'"
    by simp
  have unsettled: "\<forall>e \<in> set ?es. \<not> settles_analysis e"
    by simp
  have frame: "currentFrame ?w' = Some other_frame"
    by (simp add: handler_defs Let_def)
  have clock: "wallClock ?w' = 1000"
    by (simp add: handler_defs Let_def questioned_world_eq init_world_def example_frame_def)
  have before: "currentFrame questioned_world = Some example_frame"
    "transcribedAudio questioned_world = None"
    "explorationLog questioned_world =
       [ExplorationAnalysisResult.extend example_analysis
          \<lparr>id' = ''id-1'', timestamp = 700, imageFrameUrl = Some example_frame,
           audioTranscript = None\<rparr>]"
    by (simp_all add: questioned_world_eq init_world_def)
  have fresh: "''id-2'' \<notin> id' ` set (explorationLog questioned_world)"
    and old: "distinct (map id' (explorationLog questioned_world))"
    by (simp_all add: before ExplorationAnalysisResult.defs ExplorationLogEntry.defs)
  note main = analyze_success [OF present idle session unsettled, of example_analysis "''id-2''"]
  from main have a: "currentAnalysis (handleAnalyze_settle 0 (Inr example_analysis)
      (Inr ''id-2'') ?w') = Some example_analysis"
    by blast
  from main have b: "explorationLog (handleAnalyze_settle 0 (Inr example_analysis)
      (Inr ''id-2'') ?w') =
      [ExplorationAnalysisResult.extend example_analysis
            \<lparr>id' = ''id-2'', timestamp = 1000, imageFrameUrl = Some example_frame,
             audioTranscript = None\<rparr>,
       ExplorationAnalysisResult.extend example_analysis
            \<lparr>id' = ''id-1'', timestamp = 700, imageFrameUrl = Some example_frame,
             audioTranscript = None\<rparr>]"
    by (simp only: before clock)
  from main fresh old have c: "distinct (map id' (explorationLog (handleAnalyze_settle 0
      (Inr example_analysis) (Inr ''id-2'') ?w')))"
    by blast
  from present' idle session frame a b c show ?thesis
    by blast
qed




subsection \<open>History\<close>







subsection \<open>Queries\<close>

text \<open>
  C7. In every state in which the question is empty or consists of white space only, or
  in which there is no current analysis result, the query action does nothing: the state
  after it, which includes the outstanding calls of \<open>askSenseBridge\<close>, is the state
  before it. This holds for the handler, from the button and from the Enter key, and for
  the whole action whatever a call would have returned.
\<close>

theorem ask_noop:
  "currentAnalysis w = None \<or> (\<forall>c \<in> set (userQuery w). is_ws c) \<Longrightarrow>
     handleAsk_start w = w \<and> step AskClick w = w \<and> step AskEnter w = w
     \<and> handleAsk d outcome w = w
     \<and> pendingQueries (handleAsk d outcome w) = pendingQueries w"
  by (auto simp: handleAsk_def handleAsk_start_def trim_empty_iff split: option.splits)

theorem ask_noop_witness:
  "handleAsk 400 (Inr example_answer) init_world = init_world
   \<and> currentAnalysis (questioned_world\<lparr>userQuery := [0x20, 0x0A, 0x3000]\<rparr>)
       = Some example_analysis
   \<and> handleAsk 400 (Inr example_answer) (questioned_world\<lparr>userQuery := [0x20, 0x0A, 0x3000]\<rparr>)
       = questioned_world\<lparr>userQuery := [0x20, 0x0A, 0x3000]\<rparr>
   \<and> step AskEnter (questioned_world\<lparr>userQuery := []\<rparr>) = questioned_world\<lparr>userQuery := []\<rparr>"
proof -
  have none: "currentAnalysis init_world = None"
    by (simp add: init_world_def)
  have blank: "\<forall>c \<in> set (userQuery (questioned_world\<lparr>userQuery := [0x20, 0x0A, 0x3000]\<rparr>)). is_ws c"
    by (simp add: is_ws_def)
  have empty: "\<forall>c \<in> set (userQuery (questioned_world\<lparr>userQuery := []\<rparr>)). is_ws c"
    by simp
  have analysis: "currentAnalysis (questioned_world\<lparr>userQuery := [0x20, 0x0A, 0x3000]\<rparr>)
      = Some example_analysis"
    by (simp add: questioned_world_eq)
  from none have a: "handleAsk 400 (Inr example_answer) init_world = init_world"
    using ask_noop [of init_world 400 "Inr example_answer"] by blast
  from blank have b: "handleAsk 400 (Inr example_answer)
      (questioned_world\<lparr>userQuery := [0x20, 0x0A, 0x3000]\<rparr>)
      = questioned_world\<lparr>userQuery := [0x20, 0x0A, 0x3000]\<rparr>"
    using ask_noop [of "questioned_world\<lparr>userQuery := [0x20, 0x0A, 0x3000]\<rparr>" 400
        "Inr example_answer"] by blast
  from empty have c: "step AskEnter (questioned_world\<lparr>userQuery := []\<rparr>)
      = questioned_world\<lparr>userQuery := []\<rparr>"
    using ask_noop [of "questioned_world\<lparr>userQuery := []\<rparr>" 400 "Inr example_answer"]
    by blast
  from a b c analysis show ?thesis
    by blast
qed

text \<open>
  C8. In every state in which the query action makes its call (there is a current
  analysis result and the trimmed question is not empty), when \<open>askSenseBridge\<close> fails
  the action leaves the query result, the question and the current analysis as they
  were, and the error message as it was: the failure goes to the console only.
\<close>

theorem ask_failure:
  assumes "currentAnalysis w \<noteq> None" and "trim (userQuery w) \<noteq> []"
  shows "queryResult (handleAsk d (Inl e) w) = queryResult w
       \<and> error (handleAsk d (Inl e) w) = error w
       \<and> currentAnalysis (handleAsk d (Inl e) w) = currentAnalysis w
       \<and> userQuery (handleAsk d (Inl e) w) = userQuery w
       \<and> explorationLog (handleAsk d (Inl e) w) = explorationLog w
       \<and> console (handleAsk d (Inl e) w) = console w @ [e]
       \<and> pendingQueries (handleAsk d (Inl e) w) = pendingQueries w"
  using assms
  by (auto simp: handleAsk_def handleAsk_start_def handleAsk_settle_def advance_def Let_def
      split: option.splits)

theorem ask_failure_witness:
  "currentAnalysis questioned_world \<noteq> None \<and> trim (userQuery questioned_world) \<noteq> []
   \<and> queryResult (handleAsk 400 (Inl ''offline'') questioned_world) = None
   \<and> error (handleAsk 400 (Inl ''offline'') questioned_world) = None
   \<and> console (handleAsk 400 (Inl ''offline'') questioned_world) = [''offline'']
   \<and> error (handleAsk 400 (Inl ''offline'')
              (questioned_world\<lparr>error := Some ''Microphone access denied.''\<rparr>))
       = Some ''Microphone access denied.''"
proof -
  have analysis: "currentAnalysis questioned_world \<noteq> None"
    and analysis': "currentAnalysis (questioned_world\<lparr>error := Some ''Microphone access denied.''\<rparr>)
      \<noteq> None"
    by (simp_all add: questioned_world_eq)
  have asked: "trim (userQuery questioned_world) \<noteq> []"
    and asked': "trim (userQuery (questioned_world\<lparr>error := Some ''Microphone access denied.''\<rparr>))
      \<noteq> []"
    by (simp_all add: questioned_world_eq trim_example_question example_question_not_empty)
  show ?thesis
    using analysis asked
      ask_failure [OF analysis asked, of 400 "''offline''"]
      ask_failure [OF analysis' asked', of 400 "''offline''"]
    by (simp add: questioned_world_eq init_world_def)
qed

subsection \<open>Requests in flight\<close>

lemma step_one_analysis: "enabled e w \<Longrightarrow> one_analysis w \<Longrightarrow> one_analysis (step e w)"
  by (cases e)
     (auto simp: one_analysis_def handler_defs Let_def split: sum.splits option.splits)

text \<open>
  In every session at most one analysis is outstanding: the only way to start one is the
  analyze button, which is disabled while \<open>isAnalyzing\<close>.
\<close>

lemma run_one_analysis: "run es w = Some w' \<Longrightarrow> one_analysis w \<Longrightarrow> one_analysis w'"
  by (induction es arbitrary: w) (auto simp: step_one_analysis split: if_splits)

lemma session_one_analysis:
  "run es init_world = Some w \<Longrightarrow> length (pendingAnalyses w) \<le> 1"
  using run_one_analysis [of es init_world w]
  by (simp add: one_analysis_def init_world_def)

text \<open>
  So whenever the analyze button is offered in a session, no analysis is outstanding.
\<close>

lemma session_idle:
  "run es init_world = Some w \<Longrightarrow> enabled AnalyzeClick w \<Longrightarrow> pendingAnalyses w = []"
  using run_one_analysis [of es init_world w]
  by (auto simp: one_analysis_def init_world_def)

lemma step_one_query:
  "e \<noteq> AskEnter \<Longrightarrow> enabled e w \<Longrightarrow> one_query w \<Longrightarrow> one_query (step e w)"
  by (cases e)
     (auto simp: one_query_def handler_defs Let_def split: sum.splits option.splits)

text \<open>
  The ask button is disabled while \<open>isQuerying\<close>: in a session in which the Enter key
  is never used, at most one query is outstanding.
\<close>

lemma run_one_query:
  "AskEnter \<notin> set es \<Longrightarrow> run es w = Some w' \<Longrightarrow> one_query w \<Longrightarrow> one_query w'"
  by (induction es arbitrary: w) (auto simp: step_one_query split: if_splits)

lemma session_one_query:
  "AskEnter \<notin> set es \<Longrightarrow> run es init_world = Some w \<Longrightarrow> length (pendingQueries w) \<le> 1"
  using run_one_query [of es init_world w]
  by (simp add: one_query_def init_world_def)

text \<open>
  C9 fails for the queries. \<open>onKeyDown\<close> of the question field calls \<open>handleAsk\<close>
  whenever the key is Enter, and neither the field nor \<open>handleAsk\<close> looks at
  \<open>isQuerying\<close>. In the session below the user presses Enter twice before the first call
  has settled: every event is offered in the state it happens in, and two calls of
  \<open>askSenseBridge\<close> are outstanding at the end.
\<close>

theorem enter_twice_two_queries:
  "map_option (\<lambda>w. (length (pendingQueries w), isQuerying w))
     (run (session_until_question @ [AskEnter, AskEnter]) init_world) = Some (2, True)"
  by (simp add: run_append questioned_world_session)
     (simp add: questioned_world_eq init_world_def handler_defs Let_def
       trim_example_question example_question_not_empty)

subsection \<open>Doubles\<close>

lemma ilog2_le: "0 < x \<Longrightarrow> 2 powi ilog2 x \<le> x"
proof (cases "1 \<le> x")
  case True
  then have pos: "0 < \<lfloor>x\<rfloor>" by linarith
  from bitlen_bounds [OF pos] have "2 ^ nat (bitlen \<lfloor>x\<rfloor> - 1) \<le> \<lfloor>x\<rfloor>" ..
  then have "real_of_int (2 ^ nat (bitlen \<lfloor>x\<rfloor> - 1)) \<le> real_of_int \<lfloor>x\<rfloor>"
    by (simp only: of_int_le_iff)
  also have "\<dots> \<le> x" by simp
  finally have "(2::real) ^ nat (bitlen \<lfloor>x\<rfloor> - 1) \<le> x" by simp
  moreover have "0 \<le> bitlen \<lfloor>x\<rfloor> - 1"
    using pos by (simp add: bitlen_alt_def)
  ultimately show ?thesis
    using True by (simp add: ilog2_def power_int_def)
next
  case False
  assume x: "0 < x"
  define n where "n = \<lceil>1 / x\<rceil>"
  from False x have "1 < 1 / x" by simp
  then have n2: "2 \<le> n" unfolding n_def by linarith
  then have pos: "0 < n - 1" by simp
  from bitlen_bounds [OF pos] have "n - 1 < 2 ^ nat (bitlen (n - 1))" ..
  then have "n \<le> 2 ^ nat (bitlen (n - 1))" by simp
  then have "real_of_int n \<le> real_of_int (2 ^ nat (bitlen (n - 1)))"
    by (simp only: of_int_le_iff)
  then have "real_of_int n \<le> 2 ^ nat (bitlen (n - 1))" by simp
  moreover have "1 / x \<le> real_of_int n" unfolding n_def by simp
  ultimately have "1 / x \<le> 2 ^ nat (bitlen (n - 1))" by linarith
  then have "1 / 2 ^ nat (bitlen (n - 1)) \<le> x"
    using x by (simp add: field_simps)
  moreover have "(2::real) powi (- bitlen (n - 1)) = 1 / 2 ^ nat (bitlen (n - 1))"
    using bitlen_nonneg [of "n - 1"]
    by (simp add: power_int_minus_divide power_int_def power_one_over)
  moreover have "ilog2 x = - bitlen (n - 1)"
    using False by (simp add: ilog2_def n_def)
  ultimately show ?thesis
    by simp
qed

lemma rte_nonpos: "x \<le> 0 \<Longrightarrow> rte x \<le> 0"
proof -
  assume x: "x \<le> 0"
  then have f: "\<lfloor>x\<rfloor> \<le> 0" by simp
  show ?thesis
  proof (cases "\<lfloor>x\<rfloor> \<le> - 2")
    case True
    then show ?thesis by (simp add: rte_def Let_def)
  next
    case False
    show ?thesis
    proof (cases "\<lfloor>x\<rfloor> = 0")
      case True
      with x have "x = 0" by linarith
      then show ?thesis by (simp add: rte_def Let_def)
    next
      case nz: False
      with f False have "\<lfloor>x\<rfloor> = - 1" by linarith
      then show ?thesis by (simp add: rte_def Let_def)
    qed
  qed
qed

lemma rte_of_int: "rte (of_int z) = z"
  by (simp add: rte_def Let_def)

lemma rnd_nonpos: "x \<le> 0 \<Longrightarrow> rnd x \<le> 0"
proof -
  assume x: "x \<le> 0"
  have "x / 2 powi ulp_exponent x \<le> 0"
    using x by (simp add: divide_nonpos_pos)
  then have "rte (x / 2 powi ulp_exponent x) \<le> 0"
    by (rule rte_nonpos)
  then have "real_of_int (rte (x / 2 powi ulp_exponent x)) * 2 powi ulp_exponent x \<le> 0"
    by (simp add: mult_nonpos_nonneg)
  then show ?thesis
    by (simp add: rnd_def)
qed

lemma rnd_exact:
  assumes m: "\<bar>m\<bar> < 2 ^ 53" and e: "- 1074 \<le> e"
  shows "rnd (of_int m * 2 powi e) = of_int m * 2 powi e"
proof (cases "m = 0")
  case True
  then show ?thesis by (simp add: rnd_def)
next
  case False
  define x :: real where "x = of_int m * 2 powi e"
  have x0: "x \<noteq> 0" using False by (simp add: x_def)
  then have ax: "0 < \<bar>x\<bar>" by simp
  define u where "u = ulp_exponent x"
  have "\<bar>x\<bar> = real_of_int \<bar>m\<bar> * 2 powi e"
    by (simp add: x_def abs_mult)
  also have "\<dots> < 2 ^ 53 * 2 powi e"
  proof -
    from m have "real_of_int \<bar>m\<bar> < real_of_int (2 ^ 53)"
      by (simp only: of_int_less_iff)
    then show ?thesis by simp
  qed
  also have "\<dots> = 2 powi (e + 53)"
    by (simp add: power_int_add)
  finally have "\<bar>x\<bar> < 2 powi (e + 53)" .
  with ilog2_le [OF ax] have "(2::real) powi ilog2 \<bar>x\<bar> < 2 powi (e + 53)"
    by linarith
  then have "ilog2 \<bar>x\<bar> < e + 53"
    using power_int_increasing [of "e + 53" "ilog2 \<bar>x\<bar>" "2::real"] by force
  with e have ue: "u \<le> e"
    by (simp add: u_def ulp_exponent_def)
  have "x / 2 powi u = of_int m * 2 powi (e - u)"
    by (simp add: x_def power_int_diff)
  also have "\<dots> = of_int (m * 2 ^ nat (e - u))"
    using ue by (simp add: power_int_def)
  finally have q: "x / 2 powi u = of_int (m * 2 ^ nat (e - u))" .
  have "rnd x = of_int (rte (x / 2 powi u)) * 2 powi u"
    using x0 by (simp add: rnd_def u_def)
  also have "\<dots> = of_int (m * 2 ^ nat (e - u)) * 2 powi u"
    by (simp only: q rte_of_int)
  also have "\<dots> = x / 2 powi u * 2 powi u"
    by (simp only: q)
  also have "\<dots> = x"
    by simp
  finally show ?thesis by (simp add: x_def)
qed

lemma rnd_baseline: "rnd 0.02 = 5764607523034235 / 2 ^ 58"
proof -
  have "ilog2 (1 / 50) = - 6"
    by (simp add: ilog2_def compute_bitlen)
  then have u: "ulp_exponent (1 / 50) = - 58"
    by (simp add: ulp_exponent_def)
  have p: "(2::real) powi (- 58) = 1 / 2 ^ 58"
    by (simp add: power_int_minus_divide)
  have "\<lfloor>(2 ^ 58 / 50 :: real)\<rfloor> = 5764607523034234"
    by (rule floor_unique) simp_all
  then have "rte (2 ^ 58 / 50) = 5764607523034235"
    by (simp add: rte_def Let_def)
  then have "rte (1 / 50 / (1 / 2 ^ 58)) = 5764607523034235"
    by simp
  then have "rnd (1 / 50) = 5764607523034235 / 2 ^ 58"
    by (simp only: rnd_def u p) simp
  then show ?thesis
    by simp
qed


lemma double_upper_half:
  assumes d: "rnd r = r" and lo: "1 / 2 \<le> r" and hi: "r < 1"
  obtains k :: int where "r = of_int k * 2 powi (- 53)" and "2 ^ 52 \<le> k" and "k < 2 ^ 53"
proof -
  have "\<lceil>1 / r\<rceil> = 2"
  proof (rule ceiling_unique)
    show "real_of_int 2 - 1 < 1 / r" using lo hi by simp
    show "1 / r \<le> real_of_int 2" using lo by (simp add: field_simps)
  qed
  then have "ilog2 r = - 1"
    using hi by (simp add: ilog2_def compute_bitlen)
  moreover have "\<bar>r\<bar> = r" using lo by simp
  ultimately have u: "ulp_exponent r = - 53"
    by (simp add: ulp_exponent_def)
  define k where "k = rte (r / 2 powi (- 53))"
  have "r \<noteq> 0" using lo by auto
  with d have r: "r = of_int k * 2 powi (- 53)"
    by (simp add: rnd_def u k_def)
  have p: "(2::real) powi (- 53) = 1 / 2 ^ 53"
    by (simp add: power_int_minus_divide)
  from r lo have "(2::real) ^ 52 \<le> of_int k"
    by (simp add: p field_simps)
  then have "real_of_int (2 ^ 52) \<le> of_int k" by simp
  then have k1: "2 ^ 52 \<le> k" by (simp only: of_int_le_iff)
  from r hi have "of_int k < (2::real) ^ 53"
    by (simp add: p field_simps)
  then have "real_of_int k < of_int (2 ^ 53)" by simp
  then have k2: "k < 2 ^ 53" by (simp only: of_int_less_iff)
  from r k1 k2 show ?thesis by (rule that)
qed

lemma scaled_draw_not_baseline:
  assumes d: "rnd r = r" and hi: "r < 1"
  shows "rnd (rnd (r - 0.5) * 8) \<noteq> rnd 0.02"
proof (cases "1 / 2 \<le> r")
  case False
  then have "r - 0.5 \<le> 0" by simp
  then have "rnd (r - 0.5) \<le> 0" by (rule rnd_nonpos)
  then have "rnd (r - 0.5) * 8 \<le> 0" by simp
  then have "rnd (rnd (r - 0.5) * 8) \<le> 0" by (rule rnd_nonpos)
  moreover have "0 < rnd 0.02" unfolding rnd_baseline by simp
  ultimately show ?thesis by linarith
next
  case True
  from d True hi obtain k :: int
    where r: "r = of_int k * 2 powi (- 53)" and k1: "2 ^ 52 \<le> k" and k2: "k < 2 ^ 53"
    by (rule double_upper_half)
  define j where "j = k - 2 ^ 52"
  have j: "\<bar>j\<bar> < 2 ^ 53" using k1 k2 by (simp add: j_def)
  have p53: "(2::real) powi (- 53) = 1 / 2 ^ 53" and p50: "(2::real) powi (- 50) = 1 / 2 ^ 50"
    by (simp_all add: power_int_minus_divide)
  have ex53: "rnd (of_int j * 2 powi (- 53)) = of_int j * 2 powi (- 53)"
    and ex50: "rnd (of_int j * 2 powi (- 50)) = of_int j * 2 powi (- 50)"
    by (rule rnd_exact [OF j], simp)+
  have e1: "r - 0.5 = of_int j * 2 powi (- 53)"
    by (simp add: r j_def p53 field_simps)
  have e2: "of_int j * 2 powi (- 53) * 8 = of_int j * (2::real) powi (- 50)"
    by (simp add: p53 p50)
  have "rnd (rnd (r - 0.5) * 8) = of_int j * 2 powi (- 50)"
    by (simp only: e1 ex53 e2 ex50)
  also have "\<dots> \<noteq> rnd 0.02"
  proof
    assume "real_of_int j * 2 powi (- 50) = rnd 0.02"
    then have "real_of_int j * 2 ^ 8 = 5764607523034235"
      unfolding rnd_baseline p50 by (simp add: field_simps)
    then have "real_of_int (j * 2 ^ 8) = real_of_int 5764607523034235"
      by simp
    then have "j * 2 ^ 8 = 5764607523034235"
      by (simp only: of_int_eq_iff)
    moreover have "even (j * 2 ^ 8)" by simp
    moreover have "odd (5764607523034235 :: int)" by simp
    ultimately show False by simp
  qed
  finally show ?thesis .
qed

lemma rnd_literals: "rnd 0.5 = 0.5" "rnd 8 = 8"
proof -
  have "rnd (of_int 1 * 2 powi (- 1)) = of_int 1 * 2 powi (- 1)"
    by (rule rnd_exact) simp_all
  then show "rnd 0.5 = 0.5"
    by (simp add: power_int_minus_divide)
  have "rnd (of_int 1 * 2 powi 3) = of_int 1 * 2 powi 3"
    by (rule rnd_exact) simp_all
  then show "rnd 8 = 8"
    by simp
qed

lemma is_random_examples: "is_random 0.125" "is_random 0.75"
proof -
  have "rnd (of_int 1 * 2 powi (- 3)) = of_int 1 * 2 powi (- 3)"
    by (rule rnd_exact) simp_all
  then show "is_random 0.125"
    by (simp add: is_random_def power_int_minus_divide)
  have "rnd (of_int 3 * 2 powi (- 2)) = of_int 3 * 2 powi (- 2)"
    by (rule rnd_exact) simp_all
  then show "is_random 0.75"
    by (simp add: is_random_def power_int_minus_divide)
qed

subsection \<open>Motion simulator\<close>

text \<open>
  The first component of the generated reading is never the first component of the
  baseline. A draw below one half gives a number that is not positive. A draw from one
  half on is a multiple of \<open>2 ^ - 53\<close>, the subtraction and the multiplication are then
  exact and give a multiple of \<open>2 ^ - 50\<close>, which the double nearest to 0.02, an odd
  multiple of \<open>2 ^ - 58\<close>, is not.
\<close>

lemma newMotion_not_baseline:
  assumes "random_draws rs"
  shows "newMotion rs \<noteq> INITIAL_MOTION"
proof -
  obtain r1 r2 r3 r4 r5 r6 where rs: "rs = (r1, r2, r3, r4, r5, r6)"
    by (cases rs) auto
  from assms have "rnd r1 = r1" and "r1 < 1"
    by (simp_all add: rs random_draws_def is_random_def)
  then have "rnd (rnd (r1 - 0.5) * 8) \<noteq> rnd 0.02"
    by (rule scaled_draw_not_baseline)
  then have "dmul (dsub r1 (rnd 0.5)) (rnd 8) \<noteq> rnd 0.02"
    by (simp only: dmul_def dsub_def rnd_literals simp_thms)
  then have "fst (accel (newMotion rs)) \<noteq> fst (accel INITIAL_MOTION)"
    by (simp only: rs newMotion_def INITIAL_MOTION_def prod.case MotionData.simps fst_conv
        simp_thms)
  then show ?thesis
    by auto
qed

text \<open>
  C4, as stated, fails: no timer is ever cancelled. A trigger at time 0 and a second one
  at 2000 ms: the second trigger sets its reading, which is not the baseline; at 3000 ms
  the timer of the first trigger fires and puts the baseline back, 2000 ms before the
  delay of the second trigger has elapsed; the timer of the second trigger, due at
  5000 ms, is still pending.
\<close>

theorem earlier_timer_resets_later_reading:
  "random_draws (0.125, 0.125, 0.125, 0.125, 0.125, 0.125)
   \<and> motionData (simulateMotion (0.125, 0.125, 0.125, 0.125, 0.125, 0.125)
        (advance 2000 (simulateMotion (0.75, 0.75, 0.75, 0.75, 0.75, 0.75) init_world)))
       = newMotion (0.125, 0.125, 0.125, 0.125, 0.125, 0.125)
   \<and> newMotion (0.125, 0.125, 0.125, 0.125, 0.125, 0.125) \<noteq> INITIAL_MOTION
   \<and> now (advance 1000 (simulateMotion (0.125, 0.125, 0.125, 0.125, 0.125, 0.125)
        (advance 2000 (simulateMotion (0.75, 0.75, 0.75, 0.75, 0.75, 0.75) init_world)))) = 3000
   \<and> motionTimers (advance 1000 (simulateMotion (0.125, 0.125, 0.125, 0.125, 0.125, 0.125)
        (advance 2000 (simulateMotion (0.75, 0.75, 0.75, 0.75, 0.75, 0.75) init_world))))
       = [5000]
   \<and> motionData (advance 1000 (simulateMotion (0.125, 0.125, 0.125, 0.125, 0.125, 0.125)
        (advance 2000 (simulateMotion (0.75, 0.75, 0.75, 0.75, 0.75, 0.75) init_world))))
       = INITIAL_MOTION"
proof -
  let ?a = "(0.75, 0.75, 0.75, 0.75, 0.75, 0.75) :: real \<times> real \<times> real \<times> real \<times> real \<times> real"
  let ?b = "(0.125, 0.125, 0.125, 0.125, 0.125, 0.125)
    :: real \<times> real \<times> real \<times> real \<times> real \<times> real"
  have draws: "random_draws ?b"
    by (simp only: random_draws_def prod.case is_random_examples simp_thms)
  then have differs: "newMotion ?b \<noteq> INITIAL_MOTION"
    by (rule newMotion_not_baseline)
  have set: "motionData (simulateMotion ?b (advance 2000 (simulateMotion ?a init_world)))
      = newMotion ?b"
    by (simp add: simulateMotion_def)
  have clock: "now (advance 1000 (simulateMotion ?b (advance 2000 (simulateMotion ?a init_world))))
      = 3000"
    and timers: "motionTimers (advance 1000 (simulateMotion ?b
      (advance 2000 (simulateMotion ?a init_world)))) = [5000]"
    and reset: "motionData (advance 1000 (simulateMotion ?b
      (advance 2000 (simulateMotion ?a init_world)))) = INITIAL_MOTION"
    by (simp_all add: simulateMotion_def advance_def Let_def init_world_def)
  from draws set differs clock timers reset show ?thesis
    by blast
qed

text \<open>
  C4, amended. Triggering the motion simulator immediately sets a reading different from
  the baseline and schedules a reset 3 seconds later; once the 3 seconds have elapsed the
  reading equals exactly the baseline. No timer is cancelled, so every trigger's timer
  takes effect: under repeated triggers the timer of an earlier trigger puts the baseline
  back 3 seconds after that earlier trigger, also when a later trigger has set a new
  reading less than 3 seconds before. A reading is kept until its own delay has elapsed
  only if no timer of an earlier trigger is due before.
\<close>

theorem simulateMotion_timers:
  "motionData (simulateMotion rs w) = newMotion rs
   \<and> (random_draws rs \<longrightarrow> motionData (simulateMotion rs w) \<noteq> INITIAL_MOTION)
   \<and> motionTimers (simulateMotion rs w) = motionTimers w @ [now w + 3000]
   \<and> (3000 \<le> d \<longrightarrow> motionData (advance d (simulateMotion rs w)) = INITIAL_MOTION)
   \<and> (da < 3000 \<and> 3000 \<le> da + db \<longrightarrow>
        motionData (advance db (simulateMotion rs' (advance da (simulateMotion rs w))))
          = INITIAL_MOTION)
   \<and> (d < 3000 \<and> (\<forall>u \<in> set (motionTimers w). now w + d < u) \<longrightarrow>
        motionData (advance d (simulateMotion rs w)) = newMotion rs)"
proof -
  have "random_draws rs \<longrightarrow> motionData (simulateMotion rs w) \<noteq> INITIAL_MOTION"
    using newMotion_not_baseline [of rs] by (auto simp: simulateMotion_def)
  moreover have "3000 \<le> d \<longrightarrow> motionData (advance d (simulateMotion rs w)) = INITIAL_MOTION"
    by (auto simp: simulateMotion_def advance_def Let_def)
  moreover have "da < 3000 \<and> 3000 \<le> da + db \<longrightarrow>
      motionData (advance db (simulateMotion rs' (advance da (simulateMotion rs w))))
        = INITIAL_MOTION"
    by (auto simp: simulateMotion_def advance_def Let_def)
  moreover have "d < 3000 \<and> (\<forall>u \<in> set (motionTimers w). now w + d < u) \<longrightarrow>
      motionData (advance d (simulateMotion rs w)) = newMotion rs"
    by (auto simp: simulateMotion_def advance_def Let_def)
  ultimately show ?thesis
    by (simp add: simulateMotion_def)
qed

theorem simulateMotion_timers_witness:
  "random_draws (0.75, 0.75, 0.75, 0.75, 0.75, 0.75)
   \<and> motionData (simulateMotion (0.75, 0.75, 0.75, 0.75, 0.75, 0.75) init_world)
       = newMotion (0.75, 0.75, 0.75, 0.75, 0.75, 0.75)
   \<and> motionData (simulateMotion (0.75, 0.75, 0.75, 0.75, 0.75, 0.75) init_world)
       \<noteq> INITIAL_MOTION
   \<and> motionData (advance 3000 (simulateMotion (0.75, 0.75, 0.75, 0.75, 0.75, 0.75) init_world))
       = INITIAL_MOTION
   \<and> motionData (advance 1000 (simulateMotion (0.125, 0.125, 0.125, 0.125, 0.125, 0.125)
        (advance 2000 (simulateMotion (0.75, 0.75, 0.75, 0.75, 0.75, 0.75) init_world))))
       = INITIAL_MOTION
   \<and> motionData (advance 2999 (simulateMotion (0.75, 0.75, 0.75, 0.75, 0.75, 0.75) init_world))
       = newMotion (0.75, 0.75, 0.75, 0.75, 0.75, 0.75)"
proof -
  let ?rs = "(0.75, 0.75, 0.75, 0.75, 0.75, 0.75) :: real \<times> real \<times> real \<times> real \<times> real \<times> real"
  let ?rs' = "(0.125, 0.125, 0.125, 0.125, 0.125, 0.125)
    :: real \<times> real \<times> real \<times> real \<times> real \<times> real"
  have draws: "random_draws ?rs"
    by (simp only: random_draws_def prod.case is_random_examples simp_thms)
  have none: "\<forall>u \<in> set (motionTimers init_world). now init_world + 2999 < u"
    by (simp add: init_world_def)
  have elapsed: "(3000::nat) \<le> 3000" and before: "(2999::nat) < 3000"
    and between: "(2000::nat) < 3000 \<and> 3000 \<le> (2000::nat) + 1000"
    by simp_all
  from draws none elapsed before between
    simulateMotion_timers [of ?rs init_world 3000 2000 1000 ?rs']
    simulateMotion_timers [of ?rs init_world 2999 2000 1000 ?rs']
  show ?thesis
    by blast
qed

subsection \<open>Safety banding\<close>

text \<open>
  C5. On the interval from 0 to 100 the classification is a function of the score alone:
  a score from 80 to 100 gets the favorable (emerald) classes, a score from 50 up to but
  excluding 80 the cautionary (yellow) ones, a score from 0 up to but excluding 50 the
  unfavorable (red) ones; every score of the interval falls in exactly one of the three.
\<close>

theorem safety_band_on_0_100:
  "0 \<le> score \<and> score \<le> 100 \<Longrightarrow>
     (80 \<le> score \<longrightarrow> getSafetyColor score = ''text-emerald-400''
                      \<and> getSafetyBg score = ''bg-emerald-500/10 border-emerald-500/20'')
   \<and> (50 \<le> score \<and> score < 80 \<longrightarrow> getSafetyColor score = ''text-yellow-400''
                      \<and> getSafetyBg score = ''bg-yellow-500/10 border-yellow-500/20'')
   \<and> (score < 50 \<longrightarrow> getSafetyColor score = ''text-red-400''
                      \<and> getSafetyBg score = ''bg-red-500/10 border-red-500/20'')
   \<and> (80 \<le> score \<or> (50 \<le> score \<and> score < 80) \<or> score < 50)"
  by (auto simp: getSafetyColor_def getSafetyBg_def)

theorem safety_band_on_0_100_witness:
  "getSafetyColor 100 = ''text-emerald-400'' \<and> getSafetyColor 80 = ''text-emerald-400''
   \<and> getSafetyBg 80 = ''bg-emerald-500/10 border-emerald-500/20''
   \<and> getSafetyColor 79.5 = ''text-yellow-400'' \<and> getSafetyColor 50 = ''text-yellow-400''
   \<and> getSafetyBg 50 = ''bg-yellow-500/10 border-yellow-500/20''
   \<and> getSafetyColor 42 = ''text-red-400'' \<and> getSafetyColor 0 = ''text-red-400''
   \<and> getSafetyBg 0 = ''bg-red-500/10 border-red-500/20''"
  using safety_band_on_0_100 [of 100] safety_band_on_0_100 [of 80]
    safety_band_on_0_100 [of "79.5"] safety_band_on_0_100 [of 50]
    safety_band_on_0_100 [of 42] safety_band_on_0_100 [of 0]
  by simp

text \<open>
  C10. Neither function checks the range of its argument: every real score below 50,
  negative ones included, gets the unfavorable classes, and every score of at least 80,
  scores above 100 included, gets the favorable ones.
\<close>

theorem safety_band_unbounded:
  "(score < 50 \<longrightarrow> getSafetyColor score = ''text-red-400''
                   \<and> getSafetyBg score = ''bg-red-500/10 border-red-500/20'')
   \<and> (80 \<le> score \<longrightarrow> getSafetyColor score = ''text-emerald-400''
                   \<and> getSafetyBg score = ''bg-emerald-500/10 border-emerald-500/20'')"
  by (simp add: getSafetyColor_def getSafetyBg_def)

theorem safety_band_unbounded_witness:
  "getSafetyColor (- 7) = ''text-red-400''
   \<and> getSafetyBg (- 7) = ''bg-red-500/10 border-red-500/20''
   \<and> getSafetyColor 250 = ''text-emerald-400''
   \<and> getSafetyBg 250 = ''bg-emerald-500/10 border-emerald-500/20''"
  using safety_band_unbounded [of "- 7"] safety_band_unbounded [of 250]
  by simp

end
